theory Spec2Isabelle
  imports Main "HOL-Library.Sublist"
begin

section \<open>JavaScript strings and values\<close>

text \<open>
  The validation pipeline lives in \<^verbatim>\<open>src/app/api/auto-checker-catalog-number/route.ts\<close>.
  Its data are JavaScript values read from spreadsheet cells. Strings are modelled as
  \<^typ>\<open>string\<close>; the character classes and case conversions below are those of
  JavaScript on ASCII text, and characters outside ASCII are caseless symbols that are
  neither white space nor word characters (the no-break space apart, which
  \<^verbatim>\<open>trim\<close> removes).
\<close>

definition lowerChars :: string where
  "lowerChars = ''abcdefghijklmnopqrstuvwxyz''"

definition upperChars :: string where
  "upperChars = ''ABCDEFGHIJKLMNOPQRSTUVWXYZ''"

definition digitChars :: string where
  "digitChars = ''0123456789''"

definition isWhiteSpace :: "char \<Rightarrow> bool" where
  "isWhiteSpace c = (c \<in> set [CHR 0x09, CHR 0x0A, CHR 0x0B, CHR 0x0C, CHR 0x0D, CHR '' '', CHR 0xA0])"

definition isDigit :: "char \<Rightarrow> bool" where
  "isDigit c = (c \<in> set digitChars)"

text \<open>The regular-expression class \<^verbatim>\<open>\w\<close>: letters, digits and the underscore.\<close>

definition isWordChar :: "char \<Rightarrow> bool" where
  "isWordChar c = (c \<in> set (lowerChars @ upperChars @ digitChars @ ''_''))"

definition toLowerChar :: "char \<Rightarrow> char" where
  "toLowerChar c = (case map_of (zip upperChars lowerChars) c of Some d \<Rightarrow> d | None \<Rightarrow> c)"

definition toUpperChar :: "char \<Rightarrow> char" where
  "toUpperChar c = (case map_of (zip lowerChars upperChars) c of Some d \<Rightarrow> d | None \<Rightarrow> c)"

definition toLowerCase :: "string \<Rightarrow> string" where
  "toLowerCase s = map toLowerChar s"

definition toUpperCase :: "string \<Rightarrow> string" where
  "toUpperCase s = map toUpperChar s"

definition trimStart :: "string \<Rightarrow> string" where
  "trimStart s = dropWhile isWhiteSpace s"

definition trim :: "string \<Rightarrow> string" where
  "trim s = rev (dropWhile isWhiteSpace (rev (dropWhile isWhiteSpace s)))"

text \<open>\<^verbatim>\<open>s.split(",")\<close>: the pieces between the separators, at least one piece.\<close>

fun splitOn :: "char \<Rightarrow> string \<Rightarrow> string list" where
  "splitOn sep [] = [[]]"
| "splitOn sep (c # cs) =
     (if c = sep then [] # splitOn sep cs
      else (case splitOn sep cs of [] \<Rightarrow> [[c]] | p # ps \<Rightarrow> (c # p) # ps))"

text \<open>\<^verbatim>\<open>s.replace(",", ".")\<close> with a string pattern replaces the first occurrence only.\<close>

fun replaceFirst :: "char \<Rightarrow> char \<Rightarrow> string \<Rightarrow> string" where
  "replaceFirst a b [] = []"
| "replaceFirst a b (c # cs) = (if c = a then b # cs else c # replaceFirst a b cs)"

fun joinWith :: "string \<Rightarrow> string list \<Rightarrow> string" where
  "joinWith sep [] = []"
| "joinWith sep [x] = x"
| "joinWith sep (x # y # ys) = x @ sep @ joinWith sep (y # ys)"

subsection \<open>Numbers\<close>

text \<open>
  A JavaScript number is NaN, an infinity, or a finite value. Every finite double is a
  finite decimal, so a finite number is kept as \<open>Dec m e\<close>, the value \<open>m * 10 ^ e\<close>,
  exactly as a numeric literal denotes it; the rounding of a literal to the nearest
  double (and to zero or infinity at the ends of the range) is not modelled. Parsed
  numbers are kept in canonical form, so the value \<open>12.5\<close> of the price scenario is
  \<open>Dec 125 (- 1)\<close>; it is a double as it stands.
\<close>

datatype jsnum = NaN | PosInfinity | NegInfinity | Dec int int

function stripZeros :: "int \<Rightarrow> int \<Rightarrow> int \<times> int" where
  "stripZeros m e = (if m \<noteq> 0 \<and> m mod 10 = 0 then stripZeros (m div 10) (e + 1) else (m, e))"
  by pat_completeness auto
termination
  by (relation "measure (\<lambda>(m, e). nat \<bar>m\<bar>)") auto

declare stripZeros.simps [simp del]

text \<open>The canonical form of a number: no trailing zero in the mantissa, zero as \<open>Dec 0 0\<close>.\<close>

fun normNum :: "jsnum \<Rightarrow> jsnum" where
  "normNum (Dec m e) = (if m = 0 then Dec 0 0 else (case stripZeros m e of (m', e') \<Rightarrow> Dec m' e'))"
| "normNum n = n"

text \<open>\<^verbatim>\<open>a === b\<close> on numbers: NaN equals nothing, finite numbers are compared by value.\<close>

fun numEq :: "jsnum \<Rightarrow> jsnum \<Rightarrow> bool" where
  "numEq NaN b = False"
| "numEq a NaN = False"
| "numEq a b = (normNum a = normNum b)"

fun isNaN :: "jsnum \<Rightarrow> bool" where
  "isNaN NaN = True"
| "isNaN n = False"

text \<open>\<^verbatim>\<open>n < 0\<close>.\<close>

fun isNegative :: "jsnum \<Rightarrow> bool" where
  "isNegative NegInfinity = True"
| "isNegative (Dec m e) = (m < 0)"
| "isNegative n = False"

fun numIsZero :: "jsnum \<Rightarrow> bool" where
  "numIsZero (Dec m e) = (m = 0)"
| "numIsZero n = False"

definition digitChar :: "nat \<Rightarrow> char" where
  "digitChar d = digitChars ! (d mod 10)"

function natDigits :: "nat \<Rightarrow> string" where
  "natDigits n = (if n < 10 then [digitChar n] else natDigits (n div 10) @ [digitChar (n mod 10)])"
  by pat_completeness auto
termination
  by (relation "measure id") auto

declare natDigits.simps [simp del]

text \<open>
  \<^verbatim>\<open>String(n)\<close> for a number (Number::toString, radix 10), from the digits of the
  canonical mantissa: plain notation while the decimal point sits within 21 digits above
  or 6 below the first digit, exponent notation otherwise.
\<close>

definition posDecToString :: "nat \<Rightarrow> int \<Rightarrow> string" where
  "posDecToString m e =
     (let s = natDigits m; k = int (length s); n = k + e in
      if k \<le> n \<and> n \<le> 21 then s @ replicate (nat (n - k)) (CHR ''0'')
      else if 0 < n \<and> n \<le> 21 then take (nat n) s @ ''.'' @ drop (nat n) s
      else if - 6 < n \<and> n \<le> 0 then ''0.'' @ replicate (nat (- n)) (CHR ''0'') @ s
      else (let x = n - 1;
                ex = (if x < 0 then ''e-'' else ''e+'') @ natDigits (nat \<bar>x\<bar>) in
            if k = 1 then s @ ex else take 1 s @ ''.'' @ drop 1 s @ ex))"

fun numToString :: "jsnum \<Rightarrow> string" where
  "numToString NaN = ''NaN''"
| "numToString PosInfinity = ''Infinity''"
| "numToString NegInfinity = ''-Infinity''"
| "numToString (Dec m e) =
     (case normNum (Dec m e) of
        Dec m' e' \<Rightarrow>
          (if m' = 0 then ''0''
           else if m' < 0 then ''-'' @ posDecToString (nat (- m')) e'
           else posDecToString (nat m') e')
      | n \<Rightarrow> ''NaN'')"

subsection \<open>Reading numbers from text\<close>

definition digitVal :: "char \<Rightarrow> nat" where
  "digitVal c = (case map_of (zip digitChars [0 ..< 10]) c of Some d \<Rightarrow> d | None \<Rightarrow> 0)"

definition digitsVal :: "string \<Rightarrow> nat" where
  "digitsVal s = foldl (\<lambda>acc c. 10 * acc + digitVal c) 0 s"

text \<open>
  The exponent part of a decimal literal: \<^verbatim>\<open>e\<close> or \<^verbatim>\<open>E\<close>, an optional sign and at
  least one digit. Returns the exponent and the rest of the text; without a well-formed
  exponent part nothing is consumed.
\<close>

definition parseExponent :: "string \<Rightarrow> int \<times> string" where
  "parseExponent s =
     (case s of
        [] \<Rightarrow> (0, s)
      | c # r \<Rightarrow>
          if c = CHR ''e'' \<or> c = CHR ''E'' then
            (let (neg, r') = (case r of
                               [] \<Rightarrow> (False, r)
                             | d # r2 \<Rightarrow> if d = CHR ''-'' then (True, r2)
                                         else if d = CHR ''+'' then (False, r2)
                                         else (False, r));
                 ds = takeWhile isDigit r' in
             if ds = [] then (0, s)
             else ((if neg then - int (digitsVal ds) else int (digitsVal ds)), dropWhile isDigit r'))
          else (0, s))"

text \<open>
  The longest prefix that is a \<^verbatim>\<open>StrUnsignedDecimalLiteral\<close>: \<^verbatim>\<open>Infinity\<close>, digits
  with an optional fraction and exponent, or a fraction that starts with the point.
  \<open>None\<close> when the text does not start with one.
\<close>

definition parseUnsignedDecimal :: "string \<Rightarrow> (jsnum \<times> string) option" where
  "parseUnsignedDecimal s =
     (if take 8 s = ''Infinity'' then Some (PosInfinity, drop 8 s)
      else
        (let ip = takeWhile isDigit s; r1 = dropWhile isDigit s in
         case r1 of
           c # r2 \<Rightarrow>
             if c = CHR ''.'' then
               (let fp = takeWhile isDigit r2; r3 = dropWhile isDigit r2 in
                if ip = [] \<and> fp = [] then None
                else (let (ex, r4) = parseExponent r3 in
                      Some (Dec (int (digitsVal (ip @ fp))) (ex - int (length fp)), r4)))
             else if ip = [] then None
             else (let (ex, r4) = parseExponent r1 in Some (Dec (int (digitsVal ip)) ex, r4))
         | [] \<Rightarrow> if ip = [] then None else Some (Dec (int (digitsVal ip)) 0, [])))"

fun negateNum :: "jsnum \<Rightarrow> jsnum" where
  "negateNum NaN = NaN"
| "negateNum PosInfinity = NegInfinity"
| "negateNum NegInfinity = PosInfinity"
| "negateNum (Dec m e) = Dec (- m) e"

text \<open>An optional sign, then an unsigned decimal literal.\<close>

definition parseSignedDecimal :: "string \<Rightarrow> (jsnum \<times> string) option" where
  "parseSignedDecimal s =
     (case s of
        [] \<Rightarrow> None
      | c # r \<Rightarrow>
          if c = CHR ''-'' then map_option (\<lambda>(n, rest). (negateNum n, rest)) (parseUnsignedDecimal r)
          else if c = CHR ''+'' then parseUnsignedDecimal r
          else parseUnsignedDecimal s)"

text \<open>\<^verbatim>\<open>parseFloat(s)\<close>: leading white space is skipped, what follows the number is ignored.\<close>

definition parseFloat :: "string \<Rightarrow> jsnum" where
  "parseFloat s =
     (case parseSignedDecimal (trimStart s) of None \<Rightarrow> NaN | Some (n, rest) \<Rightarrow> normNum n)"

text \<open>Integer literals with a radix prefix, which \<^verbatim>\<open>Number(s)\<close> accepts.\<close>

definition radixDigitVal :: "char \<Rightarrow> nat option" where
  "radixDigitVal c =
     map_of (zip (digitChars @ ''abcdef'' @ ''ABCDEF'')
                 ([0 ..< 10] @ [10 ..< 16] @ [10 ..< 16])) c"

definition parseRadix :: "nat \<Rightarrow> string \<Rightarrow> jsnum" where
  "parseRadix b ds =
     (if ds \<noteq> [] \<and> list_all (\<lambda>c. case radixDigitVal c of None \<Rightarrow> False | Some d \<Rightarrow> d < b) ds
      then normNum (Dec (int (foldl (\<lambda>acc c. b * acc + the (radixDigitVal c)) 0 ds)) 0)
      else NaN)"

text \<open>
  \<^verbatim>\<open>Number(s)\<close> for a string: white space around the text is dropped, the empty text is
  zero, and the whole of the text has to be one numeric literal.
\<close>

definition stringToNumber :: "string \<Rightarrow> jsnum" where
  "stringToNumber s =
     (let t = trim s in
      if t = [] then Dec 0 0
      else if take 2 t = ''0x'' \<or> take 2 t = ''0X'' then parseRadix 16 (drop 2 t)
      else if take 2 t = ''0o'' \<or> take 2 t = ''0O'' then parseRadix 8 (drop 2 t)
      else if take 2 t = ''0b'' \<or> take 2 t = ''0B'' then parseRadix 2 (drop 2 t)
      else (case parseSignedDecimal t of
              Some (n, []) \<Rightarrow> normNum n
            | _ \<Rightarrow> NaN))"

subsection \<open>Cell values\<close>

text \<open>
  A cell value, or the value of a product field after normalisation: absent, null, a
  boolean, a number, a string, or the array of canonical names that a constant field is
  replaced by. Object-valued cells (dates, formulas, rich text) are outside the model.
\<close>

datatype jsval = JUndefined | JNull | JBool bool | JNum jsnum | JStr string | JArr "string list"

text \<open>\<^verbatim>\<open>String(v)\<close>.\<close>

fun toStr :: "jsval \<Rightarrow> string" where
  "toStr JUndefined = ''undefined''"
| "toStr JNull = ''null''"
| "toStr (JBool b) = (if b then ''true'' else ''false'')"
| "toStr (JNum n) = numToString n"
| "toStr (JStr s) = s"
| "toStr (JArr xs) = joinWith '','' xs"

text \<open>\<^verbatim>\<open>Number(v)\<close>.\<close>

fun toNumber :: "jsval \<Rightarrow> jsnum" where
  "toNumber JUndefined = NaN"
| "toNumber JNull = Dec 0 0"
| "toNumber (JBool b) = (if b then Dec 1 0 else Dec 0 0)"
| "toNumber (JNum n) = n"
| "toNumber (JStr s) = stringToNumber s"
| "toNumber (JArr xs) = stringToNumber (joinWith '','' xs)"

text \<open>Truthiness, as \<^verbatim>\<open>!v\<close> and \<^verbatim>\<open>v || d\<close> test it.\<close>

fun truthy :: "jsval \<Rightarrow> bool" where
  "truthy JUndefined = False"
| "truthy JNull = False"
| "truthy (JBool b) = b"
| "truthy (JNum n) = (\<not> isNaN n \<and> \<not> numIsZero n)"
| "truthy (JStr s) = (s \<noteq> [])"
| "truthy (JArr xs) = True"

text \<open>\<^verbatim>\<open>v === null || v === undefined\<close>.\<close>

fun isNullish :: "jsval \<Rightarrow> bool" where
  "isNullish JUndefined = True"
| "isNullish JNull = True"
| "isNullish v = False"

text \<open>\<^verbatim>\<open>typeof v === 'string' && v.trim() === ''\<close>.\<close>

fun isBlankString :: "jsval \<Rightarrow> bool" where
  "isBlankString (JStr s) = (trim s = [])"
| "isBlankString v = False"

section \<open>The fuzzy matcher for controlled vocabularies\<close>

text \<open>
  \<^verbatim>\<open>createAggressiveRegex\<close> builds the source text of a regular expression from a
  label and compiles it with the flag \<^verbatim>\<open>i\<close>. The characters that the two
  \<^verbatim>\<open>replace\<close> calls escape:
\<close>

definition backslash :: char where
  "backslash = CHR 0x5C"

definition regexSpecials :: string where
  "regexSpecials = ''-/'' @ [backslash] @ ''^$*+?.()|[]{}''"

text \<open>\<^verbatim>\<open>s.replace(/[-\/\\^$*+?.()|[\]{}]/g, "\\$&")\<close>.\<close>

definition escapeSpecials :: "string \<Rightarrow> string" where
  "escapeSpecials s = concat (map (\<lambda>c. if c \<in> set regexSpecials then [backslash, c] else [c]) s)"

text \<open>
  The pattern text: the label is escaped, then every character of the escaped text is
  mapped on its own, a word character \<open>c\<close> to \<^verbatim>\<open>c\W*\<close> and any other character to its
  escaped form once more.
\<close>

definition aggressivePattern :: "string \<Rightarrow> string" where
  "aggressivePattern input =
     concat (map (\<lambda>c. if isWordChar c then [c] @ [backslash] @ ''W*'' else escapeSpecials [c])
                 (escapeSpecials input))"

text \<open>
  The compiled form of such a pattern is a sequence of two kinds of atoms: a literal
  character, and \<^verbatim>\<open>\W*\<close>. \<open>compileRegex\<close> reads the pattern text as the
  \<^verbatim>\<open>RegExp\<close> constructor does, for the syntax these patterns are written in; any
  other syntax gives \<open>None\<close>.
\<close>

datatype ratom = Lit char | NonWordStar

fun compileRegex :: "string \<Rightarrow> ratom list option" where
  "compileRegex [] = Some []"
| "compileRegex (c # cs) =
     (if c = backslash then
        (case cs of
           [] \<Rightarrow> None
         | d # ds \<Rightarrow>
             if d = CHR ''W'' then
               (case ds of
                  [] \<Rightarrow> None
                | q # r \<Rightarrow> if q = CHR ''*'' then map_option (\<lambda>as. NonWordStar # as) (compileRegex r)
                           else None)
             else if d \<in> set regexSpecials then map_option (\<lambda>as. Lit d # as) (compileRegex ds)
             else None)
      else if c \<in> set regexSpecials then None
      else map_option (\<lambda>as. Lit c # as) (compileRegex cs))"

text \<open>
  Matching at the start of a text. With the flag \<^verbatim>\<open>i\<close> two characters match when their
  upper-case forms agree; \<^verbatim>\<open>\W*\<close> takes any run of non-word characters, and the
  backtracking of the engine finds a match whenever some split of the text gives one.
\<close>

fun matchHere :: "ratom list \<Rightarrow> string \<Rightarrow> bool" where
  "matchHere [] s = True"
| "matchHere (Lit c # as) [] = False"
| "matchHere (Lit c # as) (d # s) = (toUpperChar c = toUpperChar d \<and> matchHere as s)"
| "matchHere (NonWordStar # as) [] = matchHere as []"
| "matchHere (NonWordStar # as) (d # s) =
     ((\<not> isWordChar d \<and> matchHere (NonWordStar # as) s) \<or> matchHere as (d # s))"

text \<open>\<^verbatim>\<open>regex.test(s)\<close> without the flag \<^verbatim>\<open>g\<close>: a match starting anywhere in the text.\<close>

fun testAtoms :: "ratom list \<Rightarrow> string \<Rightarrow> bool" where
  "testAtoms as [] = matchHere as []"
| "testAtoms as (d # s) = (matchHere as (d # s) \<or> testAtoms as s)"

type_synonym regex = "ratom list option"

definition regexTest :: "regex \<Rightarrow> string \<Rightarrow> bool" where
  "regexTest r s = (case r of None \<Rightarrow> False | Some as \<Rightarrow> testAtoms as s)"

definition newRegExp :: "string \<Rightarrow> regex" where
  "newRegExp pattern = compileRegex pattern"




text \<open>
  The cache only memoises (lemma \<open>createAggressiveRegex_coherent\<close> below): a lookup
  returns what a fresh compilation of the label would. The validators therefore use the
  compilation itself.
\<close>

definition aggressiveRegex :: "string \<Rightarrow> regex" where
  "aggressiveRegex input = newRegExp (aggressivePattern input)"


section \<open>Diagnostics\<close>

text \<open>
  \<^verbatim>\<open>interface ProcessError\<close>. The free-text \<^verbatim>\<open>message\<close> and the echoed \<^verbatim>\<open>value\<close>
  are presentation and are left out; \<open>details\<close> keeps, for each line of the source's
  array, the datum the line is built around (the rejected token, or the code of the
  batched record). The five counters of the final report are grouped in \<open>summary\<close>.
  An absent \<^verbatim>\<open>catalogNumber\<close> is \<open>JUndefined\<close>.
\<close>

datatype errorType =
  TValidation | TDuplication | TMissingField | TInvalidValue | TUnrecognizedField
| TSystemError | TPermissionDenied | TFileError | TInfo | TSuccess | TWarning | TSummaryReport

datatype severityLevel = SevError | SevWarning | SevInfo | SevSuccess

record summaryCounts =
  totalProducts :: nat
  validProducts :: int
  errorCount :: nat
  duplications :: nat
  warnings :: nat

record ProcessError =
  etype :: errorType
  severity :: severityLevel
  field :: "string option"
  catalogNumber :: jsval
  sheetName :: "string option"
  code :: "string option"
  details :: "string list"
  summary :: "summaryCounts option"

definition mkError ::
  "errorType \<Rightarrow> severityLevel \<Rightarrow> string option \<Rightarrow> jsval \<Rightarrow> string option \<Rightarrow> string option \<Rightarrow> ProcessError" where
  "mkError t sev f cat sheet c =
     \<lparr>etype = t, severity = sev, field = f, catalogNumber = cat, sheetName = sheet,
      code = c, details = [], summary = None\<rparr>"

section \<open>Products and field definitions\<close>

text \<open>
  A product is a JavaScript object with flat, dotted keys: the list of its properties in
  enumeration order. Assigning to a property replaces its value in place or appends the
  property.
\<close>

type_synonym product = "(string \<times> jsval) list"

definition getField :: "product \<Rightarrow> string \<Rightarrow> jsval" where
  "getField p k = (case map_of p k of None \<Rightarrow> JUndefined | Some v \<Rightarrow> v)"

fun setField :: "product \<Rightarrow> string \<Rightarrow> jsval \<Rightarrow> product" where
  "setField [] k v = [(k, v)]"
| "setField ((k', v') # p) k v = (if k' = k then (k, v) # p else (k', v') # setField p k v)"

datatype fieldKind = Constant | Variable

record AllowedValue =
  aname :: string
  properties :: "string list"

record Field =
  fname :: string
  ftype :: fieldKind
  fvalue :: "AllowedValue list"

definition validCurrencies :: "string list" where
  "validCurrencies = [''EUR'', ''USD'', ''GBP'', ''PLN'', ''JPY'']"

definition EssentialFields :: "string list" where
  "EssentialFields =
     [''name'', ''catalog_number'', ''supplier_catalog_number'', ''supplier.id'',
      ''price.buy.currency'', ''price.buy.amount'', ''price.promotion_price.amount'',
      ''shipment.dry_ice'', ''size'', ''available'', ''display'']"

section \<open>Field validators\<close>

definition parseBoolean :: "jsval \<Rightarrow> jsval" where
  "parseBoolean v =
     (case v of
        JBool b \<Rightarrow> JBool b
      | JStr s \<Rightarrow>
          (let normalizedValue = toLowerCase (trim s) in
           if normalizedValue \<in> set [''true'', ''yes'', ''vrai''] then JBool True
           else if normalizedValue \<in> set [''false'', ''no'', ''faux''] then JBool False
           else JNull)
      | _ \<Rightarrow> JNull)"

definition validateBooleanField :: "jsval \<Rightarrow> string \<Rightarrow> string \<Rightarrow> ProcessError option" where
  "validateBooleanField v fieldName productCatalogNumber =
     (if isNullish v \<or> trim (toStr v) = [] then
        Some (mkError TMissingField SevError (Some fieldName) (JStr productCatalogNumber) None
                (Some ''EMPTY_BOOLEAN_FIELD''))
      else
        (let booleanString = toLowerCase (trim (toStr v)) in
         if booleanString \<noteq> ''true'' \<and> booleanString \<noteq> ''false'' then
           Some (mkError TInvalidValue SevError (Some fieldName) (JStr productCatalogNumber) None
                   (Some ''INVALID_BOOLEAN_VALUE''))
         else None))"

text \<open>The amount that a price text denotes, as both the check and the normalisation read it.\<close>

definition parsePrice :: "jsval \<Rightarrow> jsnum" where
  "parsePrice v = parseFloat (replaceFirst (CHR '','') (CHR ''.'') (toStr v))"

definition validatePriceAmount :: "jsval \<Rightarrow> string \<Rightarrow> string \<Rightarrow> ProcessError option" where
  "validatePriceAmount priceAmount fieldName productCatalogNumber =
     (if isNullish priceAmount \<or> trim (toStr priceAmount) = [] then
        Some (mkError TMissingField SevError (Some fieldName) (JStr productCatalogNumber) None
                (Some ''EMPTY_PRICE_AMOUNT''))
      else
        (let parsedPriceAmount = parsePrice priceAmount in
         if isNaN parsedPriceAmount then
           Some (mkError TInvalidValue SevError (Some fieldName) (JStr productCatalogNumber) None
                   (Some ''INVALID_PRICE_AMOUNT''))
         else if isNegative parsedPriceAmount then
           Some (mkError TInvalidValue SevError (Some fieldName) (JStr productCatalogNumber) None
                   (Some ''NEGATIVE_PRICE_AMOUNT''))
         else None))"

subsection \<open>Additional fields\<close>

text \<open>A \<^verbatim>\<open>Set\<close> keeps its members in insertion order; adding a member twice adds it once.\<close>

definition setAdd :: "'a list \<Rightarrow> 'a \<Rightarrow> 'a list" where
  "setAdd xs x = (if x \<in> set xs then xs else xs @ [x])"

text \<open>
  One allowed value against one token: its alternate names first, then its own name.
\<close>

definition itemMatches :: "AllowedValue \<Rightarrow> string \<Rightarrow> bool" where
  "itemMatches itemValue inputValue =
     ((properties itemValue \<noteq> [] \<and>
       list_ex (\<lambda>prop. regexTest (aggressiveRegex prop) inputValue) (properties itemValue))
      \<or> regexTest (aggressiveRegex (aname itemValue)) inputValue)"

text \<open>The loop over the allowed values: the first one that matches gives its canonical name.\<close>

fun findMatch :: "AllowedValue list \<Rightarrow> string \<Rightarrow> string option" where
  "findMatch [] inputValue = None"
| "findMatch (itemValue # rest) inputValue =
     (if itemMatches itemValue inputValue then Some (aname itemValue)
      else findMatch rest inputValue)"

text \<open>The loop over the tokens, with the set of matched names and the rejected tokens.\<close>

fun matchTokens :: "AllowedValue list \<Rightarrow> string list \<Rightarrow> string list \<times> string list
    \<Rightarrow> string list \<times> string list" where
  "matchTokens allowedValues [] acc = acc"
| "matchTokens allowedValues (inputValue # rest) (matchedItems, subErrors) =
     (case findMatch allowedValues inputValue of
        Some n \<Rightarrow> matchTokens allowedValues rest (setAdd matchedItems n, subErrors)
      | None \<Rightarrow> matchTokens allowedValues rest (matchedItems, subErrors @ [inputValue]))"

definition inputValuesOf :: "string \<Rightarrow> string list" where
  "inputValuesOf trimmedRawValue =
     filter (\<lambda>v. length v > 0) (map trim (splitOn (CHR '','') trimmedRawValue))"

text \<open>\<^verbatim>\<open>String(v || '').trim()\<close>.\<close>

definition trimmedText :: "jsval \<Rightarrow> string" where
  "trimmedText v = trim (toStr (if truthy v then v else JStr []))"

text \<open>
  The body of the loop of \<^verbatim>\<open>validateAdditionalFields\<close> for one key of the product; the
  state is the error list and the product, which the source updates in place.
\<close>

definition validateAdditionalField ::
  "string list \<Rightarrow> Field list \<Rightarrow> string \<Rightarrow> ProcessError list \<times> product \<Rightarrow> ProcessError list \<times> product" where
  "validateAdditionalField additionalFieldNames fieldDefs key st =
     (case st of (errors, finalProduct) \<Rightarrow>
      (let trimmedKey = trim key in
       if trimmedKey \<in> set additionalFieldNames then
         (case find (\<lambda>f. trim (fname f) = trimmedKey) fieldDefs of
            None \<Rightarrow> (errors, finalProduct)
          | Some foundField \<Rightarrow>
              (case ftype foundField of
                 Constant \<Rightarrow>
                   (let rawValue = getField finalProduct trimmedKey;
                        trimmedRawValue = trimmedText rawValue in
                    if toLowerCase trimmedRawValue = ''n/a'' then
                      (errors, setField finalProduct trimmedKey (JArr []))
                    else if trimmedRawValue = [] then
                      (errors @ [mkError TMissingField SevError (Some trimmedKey)
                                   (getField finalProduct ''catalog_number'') None
                                   (Some ''EMPTY_CONSTANT_FIELD'')],
                       finalProduct)
                    else
                      (let inputValues = inputValuesOf trimmedRawValue;
                           (matchedItems, subErrors) =
                              matchTokens (fvalue foundField) inputValues ([], []);
                           errors' =
                             (if length subErrors > 0 then
                                errors @ [(mkError TInvalidValue SevError (Some trimmedKey)
                                             (getField finalProduct ''catalog_number'') None
                                             (Some ''UNRECOGNIZED_CONSTANT_VALUE''))
                                          \<lparr>details := subErrors\<rparr>]
                              else errors)
                       in if length matchedItems > 0 then
                            (errors', setField finalProduct trimmedKey (JArr matchedItems))
                          else if length inputValues > 0 \<and> length subErrors = length inputValues then
                            (errors', setField finalProduct trimmedKey (JArr []))
                          else (errors', finalProduct)))
               | Variable \<Rightarrow>
                   (let variableValue = getField finalProduct trimmedKey;
                        trimmedVariableValue = trimmedText variableValue in
                    if toLowerCase trimmedVariableValue = ''n/a'' then
                      (errors, setField finalProduct trimmedKey (JStr []))
                    else if trimmedVariableValue = [] then
                      (errors @ [mkError TMissingField SevError (Some trimmedKey)
                                   (getField finalProduct ''catalog_number'') None
                                   (Some ''EMPTY_VARIABLE_FIELD'')],
                       finalProduct)
                    else (errors, setField finalProduct trimmedKey (JStr trimmedVariableValue)))))
       else (errors, finalProduct)))"

text \<open>
  \<^verbatim>\<open>validateAdditionalFields\<close>: the loop runs over the keys that the product has when
  the function is entered (\<^verbatim>\<open>Object.keys\<close> is evaluated once).
\<close>

definition validateAdditionalFields ::
  "product \<Rightarrow> string list \<Rightarrow> Field list \<Rightarrow> ProcessError list \<times> product" where
  "validateAdditionalFields finalProduct additionalFieldNames fieldDefs =
     foldl (\<lambda>st key. validateAdditionalField additionalFieldNames fieldDefs key st)
           ([], finalProduct) (map fst finalProduct)"

section \<open>The chunk validator\<close>

text \<open>
  The products of this model hold no nested objects, so the dotted keys that
  \<^verbatim>\<open>getAllKeysWithDotNotation\<close> collects are the product's own keys.
\<close>

definition getAllKeysWithDotNotation :: "product \<Rightarrow> string list" where
  "getAllKeysWithDotNotation obj = map fst obj"

fun isString :: "jsval \<Rightarrow> bool" where
  "isString (JStr s) = True"
| "isString v = False"

text \<open>
  The early check of the loop:
  \<^verbatim>\<open>!productCatalogNumber || typeof productCatalogNumber !== 'string' || String(productCatalogNumber).trim() === ''\<close>.
\<close>

definition catalogNumberUnusable :: "jsval \<Rightarrow> bool" where
  "catalogNumberUnusable productCatalogNumber =
     (\<not> truthy productCatalogNumber \<or> \<not> isString productCatalogNumber
      \<or> trim (toStr productCatalogNumber) = [])"

definition missingCatalogNumberError :: "string \<Rightarrow> ProcessError" where
  "missingCatalogNumberError sheet =
     mkError TMissingField SevError (Some ''catalog_number'') JUndefined (Some sheet)
       (Some ''MISSING_OR_INVALID_CATALOG_NUMBER'')"

text \<open>
  The two sets of catalogue numbers: the one of the current chunk and the global one of
  the run, which the caller passes by reference. Both are \<^verbatim>\<open>Set\<close>s, kept in insertion
  order.
\<close>

type_synonym seenSets = "string list \<times> string list"

definition checkDuplicate :: "string \<Rightarrow> string \<Rightarrow> seenSets \<Rightarrow> ProcessError list \<times> seenSets" where
  "checkDuplicate productCatalogNumber sheet seen =
     (case seen of (chunkProcessedCatalogNumbers, globalSupplierCatalogNumbers) \<Rightarrow>
      if productCatalogNumber \<in> set chunkProcessedCatalogNumbers then
        ([mkError TDuplication SevError (Some ''catalog_number'') (JStr productCatalogNumber)
            (Some sheet) (Some ''CHUNK_DUPLICATE_CATALOG_NUMBER'')],
         seen)
      else if productCatalogNumber \<in> set globalSupplierCatalogNumbers then
        ([mkError TDuplication SevError (Some ''catalog_number'') (JStr productCatalogNumber)
            (Some sheet) (Some ''GLOBAL_DUPLICATE_CATALOG_NUMBER'')],
         (setAdd chunkProcessedCatalogNumbers productCatalogNumber, globalSupplierCatalogNumbers))
      else
        ([],
         (setAdd chunkProcessedCatalogNumbers productCatalogNumber,
          setAdd globalSupplierCatalogNumbers productCatalogNumber)))"

definition unrecognizedFieldErrors ::
  "product \<Rightarrow> string list \<Rightarrow> string \<Rightarrow> string \<Rightarrow> ProcessError list" where
  "unrecognizedFieldErrors pr additionalFieldNames productCatalogNumber sheet =
     concat (map (\<lambda>key.
        if isNullish (getField pr key) \<or> isBlankString (getField pr key) then []
        else if trim key \<notin> set (EssentialFields @ additionalFieldNames) then
          [mkError TUnrecognizedField SevWarning (Some key) (JStr productCatalogNumber)
             (Some sheet) (Some ''UNRECOGNIZED_PRODUCT_FIELD'')]
        else [])
      (getAllKeysWithDotNotation pr))"

text \<open>The body of \<^verbatim>\<open>EssentialFields.forEach\<close>.\<close>

definition essentialFieldCheck ::
  "string \<Rightarrow> string \<Rightarrow> ProcessError list \<times> product \<Rightarrow> string \<Rightarrow> ProcessError list \<times> product" where
  "essentialFieldCheck productCatalogNumber sheet st fld =
     (case st of (errors, pr) \<Rightarrow>
      if fld = ''price.promotion_price.amount''
         \<and> (isNullish (getField pr fld) \<or> trim (toStr (getField pr fld)) = []) then
        (errors, setField pr fld JNull)
      else if isNullish (getField pr fld) \<or> isBlankString (getField pr fld) then
        (errors @ [mkError TMissingField SevError (Some fld) (JStr productCatalogNumber)
                     (Some sheet) (Some ''MISSING_ESSENTIAL_FIELD'')],
         pr)
      else (errors, pr))"

definition supplierIdCheck ::
  "jsnum \<Rightarrow> string \<Rightarrow> string \<Rightarrow> ProcessError list \<times> product \<Rightarrow> ProcessError list \<times> product" where
  "supplierIdCheck supplierId productCatalogNumber sheet st =
     (case st of (errors, pr) \<Rightarrow>
      (let parsedSupplierId = toNumber (getField pr ''supplier.id'') in
       if isNaN parsedSupplierId \<or> \<not> numEq parsedSupplierId supplierId then
         (errors @ [mkError TInvalidValue SevError (Some ''supplier.id'') (JStr productCatalogNumber)
                      (Some sheet) (Some ''INVALID_SUPPLIER_ID'')],
          pr)
       else (errors, pr)))"

definition currencyCheck ::
  "string \<Rightarrow> string \<Rightarrow> ProcessError list \<times> product \<Rightarrow> ProcessError list \<times> product" where
  "currencyCheck productCatalogNumber sheet st =
     (case st of (errors, pr) \<Rightarrow>
      (let v = getField pr ''price.buy.currency'';
           currency = trim (toUpperCase (toStr (if truthy v then v else JStr []))) in
       if currency \<notin> set validCurrencies then
         (errors @ [mkError TInvalidValue SevError (Some ''price.buy.currency'')
                      (JStr productCatalogNumber) (Some sheet) (Some ''INVALID_CURRENCY'')],
          pr)
       else (errors, setField pr ''price.buy.currency'' (JStr currency))))"

text \<open>
  A price check and its normalisation. The source passes no sheet name to
  \<^verbatim>\<open>validatePriceAmount\<close> and \<^verbatim>\<open>validateBooleanField\<close>.
\<close>

definition priceAmountCheck ::
  "string \<Rightarrow> string \<Rightarrow> ProcessError list \<times> product \<Rightarrow> ProcessError list \<times> product" where
  "priceAmountCheck fld productCatalogNumber st =
     (case st of (errors, pr) \<Rightarrow>
      (case validatePriceAmount (getField pr fld) fld productCatalogNumber of
         Some priceAmountError \<Rightarrow> (errors @ [priceAmountError], pr)
       | None \<Rightarrow> (errors, setField pr fld (JNum (parsePrice (getField pr fld))))))"

definition promotionPriceCheck ::
  "string \<Rightarrow> ProcessError list \<times> product \<Rightarrow> ProcessError list \<times> product" where
  "promotionPriceCheck productCatalogNumber st =
     (if getField (snd st) ''price.promotion_price.amount'' \<noteq> JNull
      then priceAmountCheck ''price.promotion_price.amount'' productCatalogNumber st
      else st)"

definition booleanFields :: "string list" where
  "booleanFields = [''shipment.dry_ice'', ''available'', ''display'']"

definition booleanFieldCheck ::
  "string \<Rightarrow> ProcessError list \<times> product \<Rightarrow> string \<Rightarrow> ProcessError list \<times> product" where
  "booleanFieldCheck productCatalogNumber st fld =
     (case st of (errors, pr) \<Rightarrow>
      (case validateBooleanField (getField pr fld) fld productCatalogNumber of
         Some booleanError \<Rightarrow> (errors @ [booleanError], pr)
       | None \<Rightarrow> (errors, setField pr fld (parseBoolean (getField pr fld)))))"

definition additionalFieldsCheck ::
  "string list \<Rightarrow> Field list \<Rightarrow> ProcessError list \<times> product \<Rightarrow> ProcessError list \<times> product" where
  "additionalFieldsCheck additionalFieldNames fieldDefs st =
     (case st of (errors, pr) \<Rightarrow>
      (case validateAdditionalFields pr additionalFieldNames fieldDefs of
         (additionalErrors, pr') \<Rightarrow> (errors @ additionalErrors, pr')))"

text \<open>
  The checks that follow the duplicate check, in the order of the source, on the list of
  the product's errors so far and the product.
\<close>

definition fieldChecks ::
  "jsnum \<Rightarrow> string \<Rightarrow> string list \<Rightarrow> Field list \<Rightarrow> string \<Rightarrow> ProcessError list \<times> product
    \<Rightarrow> ProcessError list \<times> product" where
  "fieldChecks supplierId sheet additionalFieldNames fieldDefs productCatalogNumber st =
     (let st1 = (fst st @ unrecognizedFieldErrors (snd st) additionalFieldNames productCatalogNumber sheet,
                 snd st);
          st2 = foldl (essentialFieldCheck productCatalogNumber sheet) st1 EssentialFields;
          st3 = supplierIdCheck supplierId productCatalogNumber sheet st2;
          st4 = currencyCheck productCatalogNumber sheet st3;
          st5 = priceAmountCheck ''price.buy.amount'' productCatalogNumber st4;
          st6 = promotionPriceCheck productCatalogNumber st5;
          st7 = foldl (booleanFieldCheck productCatalogNumber) st6 booleanFields
      in additionalFieldsCheck additionalFieldNames fieldDefs st7)"

text \<open>
  One turn of the loop of \<^verbatim>\<open>processProductChunk\<close>: the errors of the product
  (\<^verbatim>\<open>productSpecificErrors\<close>), the product as the turn leaves it, and the two sets.
\<close>

definition processProduct ::
  "jsnum \<Rightarrow> string \<Rightarrow> string list \<Rightarrow> Field list \<Rightarrow> product \<Rightarrow> seenSets
    \<Rightarrow> (ProcessError list \<times> product) \<times> seenSets" where
  "processProduct supplierId sheet additionalFieldNames fieldDefs pr seen =
     (let productCatalogNumber = getField pr ''catalog_number'' in
      if catalogNumberUnusable productCatalogNumber then
        (([missingCatalogNumberError sheet], pr), seen)
      else
        (case checkDuplicate (toStr productCatalogNumber) sheet seen of
           (dupErrors, seen') \<Rightarrow>
             (fieldChecks supplierId sheet additionalFieldNames fieldDefs
                (toStr productCatalogNumber) (dupErrors, pr),
              seen')))"

text \<open>
  The loop: all errors of a product are appended to \<^verbatim>\<open>chunkErrors\<close>; a product without
  any is appended to \<^verbatim>\<open>finalValidData\<close> with the flag \<^verbatim>\<open>validated\<close>. The state is
  \<open>(chunkErrors, finalValidData, seen)\<close>.
\<close>

definition chunkStep ::
  "jsnum \<Rightarrow> string \<Rightarrow> string list \<Rightarrow> Field list
    \<Rightarrow> ProcessError list \<times> product list \<times> seenSets \<Rightarrow> product
    \<Rightarrow> ProcessError list \<times> product list \<times> seenSets" where
  "chunkStep supplierId sheet additionalFieldNames fieldDefs st pr =
     (case st of (chunkErrors, finalValidData, seen) \<Rightarrow>
      (case processProduct supplierId sheet additionalFieldNames fieldDefs pr seen of
         ((productSpecificErrors, pr'), seen') \<Rightarrow>
           if length productSpecificErrors > 0 then
             (chunkErrors @ productSpecificErrors, finalValidData, seen')
           else
             (chunkErrors, finalValidData @ [setField pr' ''validated'' (JBool True)], seen')))"

text \<open>
  \<^verbatim>\<open>processProductChunk\<close> returns the errors and the valid products; the global set is
  its last argument and is updated for the caller, so it is returned as well.
\<close>

definition processProductChunk ::
  "product list \<Rightarrow> jsnum \<Rightarrow> string \<Rightarrow> string list \<Rightarrow> Field list \<Rightarrow> string list
    \<Rightarrow> ProcessError list \<times> product list \<times> string list" where
  "processProductChunk chunk supplierId sheet additionalFieldNames fieldDefs globalSupplierCatalogNumbers =
     (case foldl (chunkStep supplierId sheet additionalFieldNames fieldDefs)
             ([], [], ([], globalSupplierCatalogNumbers)) chunk of
        (chunkErrors, finalValidData, (chunkProcessedCatalogNumbers, globalSet)) \<Rightarrow>
          (chunkErrors, finalValidData, globalSet))"

text \<open>\<^verbatim>\<open>splitIntoChunks\<close>; the callers pass a positive chunk size.\<close>

function splitIntoChunks :: "'a list \<Rightarrow> nat \<Rightarrow> 'a list list" where
  "splitIntoChunks array chunkSize =
     (if array = [] \<or> chunkSize = 0 then []
      else take chunkSize array # splitIntoChunks (drop chunkSize array) chunkSize)"
  by pat_completeness auto
termination
  by (relation "measure (\<lambda>(array, chunkSize). length array)") auto

declare splitIntoChunks.simps [simp del]

definition CHUNK_SIZE :: nat where
  "CHUNK_SIZE = 500"

section \<open>Reading the workbook\<close>

text \<open>
  The streaming reader delivers the sheets of the workbook one after the other and, for
  each sheet, its rows; either iteration may fail with an exception. A row is the list of
  its non-empty cells, each with its column number (counted from 1), as \<^verbatim>\<open>eachCell\<close>
  visits them.
\<close>

type_synonym row = "(nat \<times> jsval) list"

datatype rowEvent = RowRead row | RowFails

datatype sheetEvent = SheetRead "string option" "rowEvent list" | SheetFails

record SheetMetadata =
  metaSheetName :: string
  rowCount :: int
  metaHeaders :: "string list"

text \<open>
  The variables of the reading loops: the messages sent, \<^verbatim>\<open>allProcessingErrors\<close>,
  \<^verbatim>\<open>metadata\<close>, \<^verbatim>\<open>allProducts\<close>, \<^verbatim>\<open>processedRows\<close>, and for the sheet being read
  \<^verbatim>\<open>sheetProducts\<close>, \<^verbatim>\<open>rowIndex\<close>, \<^verbatim>\<open>headers\<close> (a sparse array, as the list of its
  assigned indices) and \<^verbatim>\<open>sheetMetadata.headers\<close>.
\<close>

record ReaderState =
  sent :: "ProcessError list"
  allProcessingErrors :: "ProcessError list"
  metadata :: "SheetMetadata list"
  allProducts :: "product list"
  processedRows :: nat
  sheetProducts :: "product list"
  rowIndex :: nat
  headers :: "(nat \<times> string) list"
  sheetHeaders :: "string list"

definition mkMessage :: "errorType \<Rightarrow> severityLevel \<Rightarrow> string option \<Rightarrow> ProcessError" where
  "mkMessage t sev c = mkError t sev None JUndefined None c"

text \<open>\<^verbatim>\<open>cell.value?.toString().trim() || `Column${colNumber}`\<close>.\<close>

definition headerName :: "jsval \<Rightarrow> nat \<Rightarrow> string" where
  "headerName v colNumber =
     (if isNullish v \<or> trim (toStr v) = [] then ''Column'' @ natDigits colNumber
      else trim (toStr v))"

fun setIndex :: "(nat \<times> 'a) list \<Rightarrow> nat \<Rightarrow> 'a \<Rightarrow> (nat \<times> 'a) list" where
  "setIndex [] i v = [(i, v)]"
| "setIndex ((j, w) # xs) i v = (if j = i then (i, v) # xs else (j, w) # setIndex xs i v)"

text \<open>\<^verbatim>\<open>typeof cell.value === 'string' ? cell.value.trim() : cell.value ?? null\<close>.\<close>

definition cellValue :: "jsval \<Rightarrow> jsval" where
  "cellValue v = (case v of JStr s \<Rightarrow> JStr (trim s) | JUndefined \<Rightarrow> JNull | _ \<Rightarrow> v)"

definition noHeaderError :: "string \<Rightarrow> ProcessError" where
  "noHeaderError sheet =
     mkError TFileError SevWarning None JUndefined (Some sheet) (Some ''NO_SHEET_HEADERS'')"

text \<open>The body of the loop over the rows of a sheet.\<close>

definition rowStep :: "string \<Rightarrow> row \<Rightarrow> ReaderState \<Rightarrow> ReaderState" where
  "rowStep sheet cells st0 =
     (let st = st0\<lparr>rowIndex := rowIndex st0 + 1\<rparr> in
      if rowIndex st = 1 then
        (let hs = foldl (\<lambda>h (colNumber, v). setIndex h colNumber (headerName v colNumber)) [] cells in
         if length (filter (\<lambda>(i, h). h \<noteq> []) hs) = 0 then
           st\<lparr>headers := hs,
              allProcessingErrors := allProcessingErrors st @ [noHeaderError sheet],
              sent := sent st @ [noHeaderError sheet]\<rparr>
         else
           st\<lparr>headers := hs,
              sheetHeaders := map snd (filter (\<lambda>(i, h). 1 \<le> i \<and> h \<noteq> []) (sort_key fst hs))\<rparr>)
      else if cells = [] then st
      else
        (let productData =
               foldl (\<lambda>pd (colNumber, v).
                        (case map_of (headers st) colNumber of
                           Some h \<Rightarrow> if h \<noteq> [] then setField pd h (cellValue v) else pd
                         | None \<Rightarrow> pd))
                     [] cells in
         if length productData > 0 then
           (let st' = st\<lparr>sheetProducts := sheetProducts st @ [productData],
                          processedRows := processedRows st + 1\<rparr> in
            if processedRows st' mod CHUNK_SIZE = 0 then
              st'\<lparr>sent := sent st' @ [mkMessage TInfo SevInfo None]\<rparr>
            else st')
         else st))"

text \<open>
  The loop over the rows: an exception of the reader ends it, and the flag tells the
  caller so.
\<close>

fun readRows :: "string \<Rightarrow> rowEvent list \<Rightarrow> ReaderState \<Rightarrow> bool \<times> ReaderState" where
  "readRows sheet [] st = (False, st)"
| "readRows sheet (RowFails # evs) st = (True, st)"
| "readRows sheet (RowRead cells # evs) st = readRows sheet evs (rowStep sheet cells st)"

text \<open>The body of the loop over the sheets; \<^verbatim>\<open>worksheet.name || 'Sheet'\<close> names the sheet.\<close>

definition readSheet :: "string option \<Rightarrow> rowEvent list \<Rightarrow> ReaderState \<Rightarrow> bool \<times> ReaderState" where
  "readSheet name evs st0 =
     (let sheet = (case name of None \<Rightarrow> ''Sheet'' | Some n \<Rightarrow> if n = [] then ''Sheet'' else n);
          st1 = st0\<lparr>sent := sent st0 @ [mkError TInfo SevInfo None JUndefined (Some sheet) None],
                    sheetProducts := [], rowIndex := 0, headers := [], sheetHeaders := []\<rparr>
      in case readRows sheet evs st1 of
           (True, st2) \<Rightarrow> (True, st2)
         | (False, st2) \<Rightarrow>
             (False,
              st2\<lparr>metadata := metadata st2 @
                     [\<lparr>metaSheetName = sheet, rowCount = int (rowIndex st2) - 1,
                       metaHeaders = sheetHeaders st2\<rparr>],
                  allProducts := allProducts st2 @ sheetProducts st2\<rparr>))"

fun readWorkbook :: "sheetEvent list \<Rightarrow> ReaderState \<Rightarrow> bool \<times> ReaderState" where
  "readWorkbook [] st = (False, st)"
| "readWorkbook (SheetFails # evs) st = (True, st)"
| "readWorkbook (SheetRead name rows # evs) st =
     (case readSheet name rows st of
        (True, st') \<Rightarrow> (True, st')
      | (False, st') \<Rightarrow> readWorkbook evs st')"

definition initialReaderState :: ReaderState where
  "initialReaderState =
     \<lparr>sent = [], allProcessingErrors = [], metadata = [], allProducts = [], processedRows = 0,
      sheetProducts = [], rowIndex = 0, headers = [], sheetHeaders = []\<rparr>"

section \<open>The content fingerprint\<close>

text \<open>
  \<^verbatim>\<open>generateMetadataHash\<close> of \<^verbatim>\<open>src/lib/metadata-utils.ts\<close>. The digest and the JSON
  serialisation belong to the runtime; they are parameters. The values of this model
  always serialise, so the fallback of the source's \<^verbatim>\<open>catch\<close> is never taken.
\<close>

record Runtime =
  sha256 :: "string \<Rightarrow> string"
  stringifyMetadata :: "SheetMetadata list \<Rightarrow> string"
  stringifyProducts :: "product list \<Rightarrow> string"

definition slice :: "'a list \<Rightarrow> nat \<Rightarrow> nat \<Rightarrow> 'a list" where
  "slice xs a b = take (b - a) (drop a xs)"

definition generateMetadataHash :: "Runtime \<Rightarrow> SheetMetadata list \<Rightarrow> product list \<Rightarrow> string" where
  "generateMetadataHash rt meta products =
     (let metadataHash = sha256 rt (stringifyMetadata rt meta);
          sampleSize = (1::nat);
          n = length products;
          sampledProducts =
            (if n > 0 then
               slice products 0 (min sampleSize n)
               @ (if n > sampleSize * 2 then
                    (let middleIndex = n div 2 in
                     slice products (middleIndex - sampleSize div 2)
                           (min n (middleIndex + (sampleSize + 1) div 2)))
                  else [])
               @ (if n > sampleSize then slice products (n - sampleSize) n else [])
             else []);
          productsHash = sha256 rt (stringifyProducts rt sampledProducts);
          totalCount = natDigits n
      in sha256 rt (metadataHash @ productsHash @ totalCount))"

section \<open>The run\<close>

text \<open>
  What the handler \<^verbatim>\<open>GET\<close> reads from outside: the two query parameters, whether the
  uploaded file exists, the outcome of the query for the field-definition document,
  whether the workbook reader can be constructed, what the reader delivers, the
  \<^verbatim>\<open>files\<close> array of the stored record named \<^verbatim>\<open>auto-checker\<close> (\<open>None\<close> when there is no
  such record), and whether the update of that record and the removal of the file fail.
\<close>

datatype 'a attempt = Throws | Returns 'a

record RunEnv =
  supplierIdParam :: "string option"
  filePathParam :: "string option"
  fileExists :: bool
  additionalFieldsDocument :: "Field list option attempt"
  workbookOpens :: bool
  workbook :: "sheetEvent list"
  bluePrintFiles :: "string list option"
  bluePrintUpdateFails :: bool
  unlinkFails :: bool

text \<open>
  \<^verbatim>\<open>findOneAndUpdate({name}, {$addToSet: {files: h}}, {upsert: true})\<close>: the record is
  created when absent, and the value is appended unless the array holds it.
\<close>

definition addToSet :: "string list option \<Rightarrow> string \<Rightarrow> string list option" where
  "addToSet files h = (case files of None \<Rightarrow> Some [h] | Some fs \<Rightarrow> Some (setAdd fs h))"

text \<open>The loop over the validation chunks; the state is the messages sent, the errors and the global set.\<close>

definition validateChunk ::
  "jsnum \<Rightarrow> string list \<Rightarrow> Field list
    \<Rightarrow> ProcessError list \<times> ProcessError list \<times> string list \<Rightarrow> product list
    \<Rightarrow> ProcessError list \<times> ProcessError list \<times> string list" where
  "validateChunk supplierId additionalFieldNames fieldDefs st chunk =
     (case st of (msgs, errs, globalSupplierCatalogNumbers) \<Rightarrow>
      (case processProductChunk chunk supplierId ''Main Sheet'' additionalFieldNames fieldDefs
              globalSupplierCatalogNumbers of
         (chunkResultsErrors, finalValidData, globalSet) \<Rightarrow>
           (msgs @ [mkMessage TInfo SevInfo None], errs @ chunkResultsErrors, globalSet)))"

definition isValidationError :: "ProcessError \<Rightarrow> bool" where
  "isValidationError e =
     (etype e \<in> set [TValidation, TMissingField, TInvalidValue, TSystemError, TPermissionDenied, TFileError]
      \<and> severity e = SevError)"

definition isDuplicationError :: "ProcessError \<Rightarrow> bool" where
  "isDuplicationError e = (etype e = TDuplication \<and> severity e = SevError)"

definition isWarning :: "ProcessError \<Rightarrow> bool" where
  "isWarning e = (severity e = SevWarning)"

definition codeText :: "ProcessError \<Rightarrow> string" where
  "codeText e = (case code e of None \<Rightarrow> ''undefined'' | Some c \<Rightarrow> c)"

definition summaryReport :: "nat \<Rightarrow> nat \<Rightarrow> nat \<Rightarrow> nat \<Rightarrow> ProcessError" where
  "summaryReport nTotal nErrors nDuplications nWarnings =
     (mkMessage TSummaryReport SevInfo (Some ''FINAL_SUMMARY''))
       \<lparr>summary := Some \<lparr>totalProducts = nTotal,
                          validProducts = int nTotal - int nErrors - int nDuplications,
                          errorCount = nErrors, duplications = nDuplications,
                          warnings = nWarnings\<rparr>\<rparr>"

text \<open>
  The part of the handler after the file has been read and found to hold products: the
  messages it sends and the stored fingerprints it leaves.
\<close>

definition validateAndReport ::
  "Runtime \<Rightarrow> RunEnv \<Rightarrow> jsnum \<Rightarrow> Field list \<Rightarrow> ReaderState
    \<Rightarrow> ProcessError list \<times> string list option" where
  "validateAndReport rt env supplierId fieldDefs rs =
     (let additionalFieldNames = map fname fieldDefs;
          metadataHash = generateMetadataHash rt (metadata rs) (allProducts rs);
          chunks = splitIntoChunks (allProducts rs) CHUNK_SIZE;
          (chunkMsgs, allErrors, globalSet) =
             foldl (validateChunk supplierId additionalFieldNames fieldDefs)
                   ([], allProcessingErrors rs, []) chunks;
          validationErrors = filter isValidationError allErrors;
          duplicationErrors = filter isDuplicationError allErrors;
          warningMessages = filter isWarning allErrors;
          batchMsgs =
            map (\<lambda>batch. (mkMessage TValidation SevError (Some ''VALIDATION_BATCH''))
                             \<lparr>details := map codeText batch\<rparr>)
                (splitIntoChunks validationErrors 50);
          dupMsgs =
            (if length duplicationErrors > 0 then
               [(mkMessage TDuplication SevError (Some ''DUPLICATION_SUMMARY''))
                  \<lparr>details := map codeText duplicationErrors\<rparr>]
             else []);
          warnMsgs =
            (if length warningMessages > 0 then
               [(mkMessage TWarning SevWarning (Some ''WARNING_SUMMARY''))
                  \<lparr>details := map codeText warningMessages\<rparr>]
             else []);
          (saveMsgs, files') =
            (if length validationErrors = 0 \<and> length duplicationErrors = 0 then
               (if bluePrintUpdateFails env then
                  ([mkMessage TSystemError SevError (Some ''BLUEPRINT_SAVE_FAILED'')],
                   bluePrintFiles env)
                else
                  ([mkMessage TSuccess SevSuccess None, mkMessage TSuccess SevSuccess None],
                   addToSet (bluePrintFiles env) metadataHash))
             else ([mkMessage TInfo SevInfo None], bluePrintFiles env))
      in ([mkMessage TInfo SevInfo None, mkMessage TInfo SevInfo None]
          @ chunkMsgs @ batchMsgs @ dupMsgs @ warnMsgs @ saveMsgs
          @ [summaryReport (length (allProducts rs)) (length validationErrors)
               (length duplicationErrors) (length warningMessages),
             mkMessage TSuccess SevSuccess None],
          files'))"

definition unexpectedServerError :: ProcessError where
  "unexpectedServerError = mkMessage TSystemError SevError (Some ''UNEXPECTED_SERVER_ERROR'')"

text \<open>\<^verbatim>\<open>Number(url.searchParams.get('supplierId'))\<close>; an absent parameter is \<^verbatim>\<open>null\<close>.\<close>

definition supplierIdOf :: "RunEnv \<Rightarrow> jsnum" where
  "supplierIdOf env =
     toNumber (case supplierIdParam env of None \<Rightarrow> JNull | Some s \<Rightarrow> JStr s)"

definition paramsMissing :: "RunEnv \<Rightarrow> bool" where
  "paramsMissing env =
     (\<not> truthy (JNum (supplierIdOf env))
      \<or> \<not> truthy (case filePathParam env of None \<Rightarrow> JNull | Some s \<Rightarrow> JStr s))"

text \<open>
  The \<^verbatim>\<open>try\<close> block of the handler, an exception inside it being answered by the
  \<^verbatim>\<open>catch\<close> clause with \<open>unexpectedServerError\<close>.
\<close>

definition runBody :: "Runtime \<Rightarrow> RunEnv \<Rightarrow> ProcessError list \<times> string list option" where
  "runBody rt env =
     (if paramsMissing env then
        ([mkMessage TSystemError SevError (Some ''MISSING_PARAMS'')], bluePrintFiles env)
      else if \<not> fileExists env then
        ([mkMessage TFileError SevError (Some ''FILE_NOT_FOUND'')], bluePrintFiles env)
      else
        (case additionalFieldsDocument env of
           Throws \<Rightarrow> ([unexpectedServerError], bluePrintFiles env)
         | Returns None \<Rightarrow>
             ([mkMessage TSystemError SevError (Some ''METADATA_NOT_FOUND'')], bluePrintFiles env)
         | Returns (Some fieldDefs) \<Rightarrow>
             (let started = [mkMessage TInfo SevInfo None] in
              if \<not> workbookOpens env then
                (started @ [mkMessage TFileError SevError (Some ''EXCEL_OPEN_ERROR'')],
                 bluePrintFiles env)
              else
                (case readWorkbook (workbook env) initialReaderState of
                   (True, rs) \<Rightarrow> (started @ sent rs @ [unexpectedServerError], bluePrintFiles env)
                 | (False, rs) \<Rightarrow>
                     if length (allProducts rs) = 0 then
                       (started @ sent rs
                        @ [mkMessage TInfo SevInfo (Some ''NO_PRODUCTS_FOUND''),
                           mkMessage TSuccess SevSuccess None],
                        bluePrintFiles env)
                     else
                       (case validateAndReport rt env (supplierIdOf env) fieldDefs rs of
                          (msgs, files') \<Rightarrow> (started @ sent rs @ msgs, files'))))))"

text \<open>
  The \<^verbatim>\<open>finally\<close> clause: the temporary file is removed when it exists. The path it
  tests is empty when the parameters were missing.
\<close>

definition cleanupMessages :: "RunEnv \<Rightarrow> ProcessError list" where
  "cleanupMessages env =
     (if \<not> paramsMissing env \<and> fileExists env then
        (if unlinkFails env then [mkMessage TSystemError SevError (Some ''TEMP_FILE_CLEANUP_FAILED'')]
         else [mkMessage TInfo SevInfo None])
      else [])"

text \<open>
  The handler: the stream of messages, which opens with the notice that the database is
  connected, and the stored fingerprints after the run.
\<close>

definition GET :: "Runtime \<Rightarrow> RunEnv \<Rightarrow> ProcessError list \<times> string list option" where
  "GET rt env =
     (case runBody rt env of
        (msgs, files') \<Rightarrow> ([mkMessage TInfo SevInfo None] @ msgs @ cleanupMessages env, files'))"

section \<open>Notions used in the properties\<close>










definition catalogNumberOf :: "product \<Rightarrow> jsval" where
  "catalogNumberOf pr = getField pr ''catalog_number''"




text \<open>
  The records that the checks after the duplicate check produce: an error of type
  \<open>missing_field\<close> or \<open>invalid_value\<close>, or the warning for an unrecognised field.
\<close>

definition fieldRecord :: "ProcessError \<Rightarrow> bool" where
  "fieldRecord e =
     ((etype e = TMissingField \<or> etype e = TInvalidValue) \<and> severity e = SevError
      \<or> etype e = TUnrecognizedField \<and> severity e = SevWarning)"






text \<open>The \<open>validProducts\<close> counters of the final reports in a stream of messages.\<close>

definition reportedValidProducts :: "ProcessError list \<Rightarrow> int list" where
  "reportedValidProducts msgs =
     concat (map (\<lambda>m. case summary m of None \<Rightarrow> [] | Some s \<Rightarrow> [validProducts s]) msgs)"

text \<open>
  Sample data for instances of the handler: a stand-in for the runtime (any functions
  serve), a header row with the essential fields and one more column, a data row with a
  given catalogue number, currency and amount and possibly further cells, and a request
  for supplier 5 whose file exists and holds one sheet of given rows, with no additional
  field configured.
\<close>

definition sampleRuntime :: Runtime where
  "sampleRuntime =
     \<lparr>sha256 = (\<lambda>s. ''#'' @ s),
      stringifyMetadata = (\<lambda>m. natDigits (length m)),
      stringifyProducts = (\<lambda>ps. natDigits (length ps))\<rparr>"

definition headerRow :: rowEvent where
  "headerRow =
     RowRead [(1, JStr ''name''), (2, JStr ''catalog_number''),
              (3, JStr ''supplier_catalog_number''), (4, JStr ''supplier.id''),
              (5, JStr ''price.buy.currency''), (6, JStr ''price.buy.amount''),
              (7, JStr ''shipment.dry_ice''), (8, JStr ''size''),
              (9, JStr ''available''), (10, JStr ''display''), (11, JStr ''lot'')]"

definition dataRow :: "string \<Rightarrow> string \<Rightarrow> string \<Rightarrow> row \<Rightarrow> rowEvent" where
  "dataRow c currency amount others =
     RowRead ([(1, JStr ''Antibody''), (2, JStr c), (3, JStr ''S-1''), (4, JNum (Dec 5 0)),
               (5, JStr currency), (6, JStr amount), (7, JStr ''true''), (8, JStr ''1 ml''),
               (9, JBool True), (10, JStr ''False'')] @ others)"

definition sampleEnv :: "rowEvent list \<Rightarrow> string list option \<Rightarrow> RunEnv" where
  "sampleEnv rows files =
     \<lparr>supplierIdParam = Some ''5'', filePathParam = Some ''/temp/upload.xlsx'',
      fileExists = True, additionalFieldsDocument = Returns (Some []), workbookOpens = True,
      workbook = [SheetRead (Some ''Products'') rows], bluePrintFiles = files,
      bluePrintUpdateFails = False, unlinkFails = False\<rparr>"

text \<open>
  The fatal errors of the handler: missing parameters, a file that is absent or cannot
  be opened, no field-definition document, or an unexpected failure.
\<close>

definition isFatalError :: "ProcessError \<Rightarrow> bool" where
  "isFatalError e =
     (severity e = SevError
      \<and> (etype e = TSystemError \<or> etype e = TFileError)
      \<and> code e \<in> set [Some ''MISSING_PARAMS'', Some ''FILE_NOT_FOUND'', Some ''METADATA_NOT_FOUND'',
                        Some ''EXCEL_OPEN_ERROR'', Some ''UNEXPECTED_SERVER_ERROR''])"

text \<open>The three ways in which the messages of the \<^verbatim>\<open>try\<close> block end.\<close>

definition endsWithReport :: "ProcessError list \<Rightarrow> bool" where
  "endsWithReport msgs =
     (\<exists>pre a b c d. msgs = pre @ [summaryReport a b c d, mkMessage TSuccess SevSuccess None])"

definition endsWithNoProducts :: "ProcessError list \<Rightarrow> bool" where
  "endsWithNoProducts msgs =
     (\<exists>pre. msgs = pre @ [mkMessage TInfo SevInfo (Some ''NO_PRODUCTS_FOUND''),
                            mkMessage TSuccess SevSuccess None])"

definition endsWithFatalError :: "ProcessError list \<Rightarrow> bool" where
  "endsWithFatalError msgs = (\<exists>pre e. msgs = pre @ [e] \<and> isFatalError e)"


definition reportedErrorCounts :: "ProcessError list \<Rightarrow> (nat \<times> nat) list" where
  "reportedErrorCounts msgs =
     concat (map (\<lambda>m. case summary m of None \<Rightarrow> [] | Some s \<Rightarrow> [(errorCount s, duplications s)]) msgs)"



text \<open>
  A record about the buy price: one whose field is the buy amount or the buy currency.
\<close>

definition priceRelated :: "ProcessError \<Rightarrow> bool" where
  "priceRelated e = (field e = Some ''price.buy.amount'' \<or> field e = Some ''price.buy.currency'')"

text \<open>The values of the two fields of the buy price in a product.\<close>

definition priceFields :: "jsval \<Rightarrow> jsval \<Rightarrow> product \<Rightarrow> bool" where
  "priceFields a c pr =
     (getField pr ''price.buy.amount'' = a \<and> getField pr ''price.buy.currency'' = c)"

text \<open>
  A step of the checks that, on a product satisfying \<open>I\<close>, only appends records of the
  kind \<open>K\<close> and leaves a product satisfying \<open>J\<close>.
\<close>

definition stepKeeps ::
  "(product \<Rightarrow> bool) \<Rightarrow> (product \<Rightarrow> bool) \<Rightarrow> (ProcessError \<Rightarrow> bool)
    \<Rightarrow> (ProcessError list \<times> product \<Rightarrow> ProcessError list \<times> product) \<Rightarrow> bool" where
  "stepKeeps I J K f =
     (\<forall>es pr. I pr \<longrightarrow> (\<exists>new pr'. f (es, pr) = (es @ new, pr') \<and> list_all K new \<and> J pr'))"

text \<open>
  A text that begins with a number: after leading white space and an optional sign comes
  \<open>Infinity\<close>, a digit, or a point followed by a digit.
\<close>

definition startsWithNumber :: "string \<Rightarrow> bool" where
  "startsWithNumber s =
     (let t = trimStart s;
          u = (case t of [] \<Rightarrow> [] | c # r \<Rightarrow> if c = CHR ''-'' \<or> c = CHR ''+'' then r else t)
      in take 8 u = ''Infinity''
         \<or> (case u of
               [] \<Rightarrow> False
             | c # r \<Rightarrow> isDigit c
                        \<or> (c = CHR ''.'' \<and> (case r of [] \<Rightarrow> False | d # r' \<Rightarrow> isDigit d))))"

section \<open>Basic facts\<close>

lemma getField_setField:
  "getField (setField p k v) k' = (if k' = k then v else getField p k')"
  by (induction p) (auto simp: getField_def)








subsection \<open>The compiled pattern and its matches\<close>




lemma escapeSpecials_Cons: "escapeSpecials (c # cs) = escapeSpecials [c] @ escapeSpecials cs"
  by (simp add: escapeSpecials_def)









lemma toUpperChar_nonword: "\<not> isWordChar c \<Longrightarrow> toUpperChar c = c"
proof -
  assume nw: "\<not> isWordChar c"
  have "map_of (zip lowerChars upperChars) c = None"
  proof (rule ccontr)
    assume "map_of (zip lowerChars upperChars) c \<noteq> None"
    then obtain d where "map_of (zip lowerChars upperChars) c = Some d" by auto
    then have "(c, d) \<in> set (zip lowerChars upperChars)" by (rule map_of_SomeD)
    then have "c \<in> set lowerChars" by (rule set_zip_leftD)
    then show False using nw by (simp add: isWordChar_def)
  qed
  then show ?thesis by (simp add: toUpperChar_def)
qed







subsection \<open>The loop of the chunk validator\<close>

lemma chunkStep_frame:
  "chunkStep sid sheet names fds (E, V, seen) x =
     (case chunkStep sid sheet names fds ([], [], seen) x of (e, v, s') \<Rightarrow> (E @ e, V @ v, s'))"
  by (simp add: chunkStep_def split: prod.splits)

lemma foldl_chunkStep_frame:
  "foldl (chunkStep sid sheet names fds) (E, V, seen) xs =
     (case foldl (chunkStep sid sheet names fds) ([], [], seen) xs of
        (E', V', seen') \<Rightarrow> (E @ E', V @ V', seen'))"
proof (induction xs rule: rev_induct)
  case Nil
  show ?case by simp
next
  case (snoc x xs)
  obtain E' V' seen' where r: "foldl (chunkStep sid sheet names fds) ([], [], seen) xs = (E', V', seen')"
    by (cases "foldl (chunkStep sid sheet names fds) ([], [], seen) xs") auto
  obtain e v s' where st: "chunkStep sid sheet names fds ([], [], seen') x = (e, v, s')"
    by (cases "chunkStep sid sheet names fds ([], [], seen') x") auto
  have a: "chunkStep sid sheet names fds (E @ E', V @ V', seen') x = ((E @ E') @ e, (V @ V') @ v, s')"
    using chunkStep_frame [of sid sheet names fds "E @ E'" "V @ V'" seen' x] st by simp
  have b: "chunkStep sid sheet names fds (E', V', seen') x = (E' @ e, V' @ v, s')"
    using chunkStep_frame [of sid sheet names fds E' V' seen' x] st by simp
  show ?case using snoc r a b by simp
qed

lemma missing_or_blank_unusable:
  "isNullish v \<or> isBlankString v \<Longrightarrow> catalogNumberUnusable v"
  by (cases v) (auto simp: catalogNumberUnusable_def trim_def)

section \<open>Products without a catalogue number\<close>

text \<open>
  Claim C2. A product whose catalogue number is missing (absent or null) or blank gets
  exactly one error, of type \<open>missing_field\<close>; no other check runs for it, so the
  two sets of catalogue numbers and the product are left as they were, and it is not part
  of the valid output: a chunk with such a product at any position gives the errors of
  the chunk without it, with this one error inserted at the product's place, and the same
  valid products and global set.
\<close>

theorem missing_catalog_number_short_circuits:
  assumes "isNullish (catalogNumberOf pr) \<or> isBlankString (catalogNumberOf pr)"
  shows "processProduct sid sheet names fds pr seen = (([missingCatalogNumberError sheet], pr), seen)
    \<and> etype (missingCatalogNumberError sheet) = TMissingField
    \<and> (\<exists>E1 E2 V G V1 G1.
          processProductChunk pre sid sheet names fds g = (E1, V1, G1)
        \<and> processProductChunk (pre @ post) sid sheet names fds g = (E1 @ E2, V, G)
        \<and> processProductChunk (pre @ pr # post) sid sheet names fds g
            = (E1 @ [missingCatalogNumberError sheet] @ E2, V, G))"
proof -
  let ?f = "chunkStep sid sheet names fds"
  have u: "catalogNumberUnusable (getField pr ''catalog_number'')"
    using assms missing_or_blank_unusable by (simp add: catalogNumberOf_def)
  then have pp: "processProduct sid sheet names fds pr s = (([missingCatalogNumberError sheet], pr), s)" for s
    by (simp add: processProduct_def)
  obtain E1 V1 c1 g1 where r1: "foldl ?f ([], [], ([], g)) pre = (E1, V1, (c1, g1))"
    by (cases "foldl ?f ([], [], ([], g)) pre") auto
  obtain E2 V2 c2 g2 where r2: "foldl ?f ([], [], (c1, g1)) post = (E2, V2, (c2, g2))"
    by (cases "foldl ?f ([], [], (c1, g1)) post") auto
  have step: "?f (E1, V1, (c1, g1)) pr = (E1 @ [missingCatalogNumberError sheet], V1, (c1, g1))"
    by (simp add: chunkStep_def pp)
  have a: "foldl ?f (E1, V1, (c1, g1)) post = (E1 @ E2, V1 @ V2, (c2, g2))"
    using foldl_chunkStep_frame [of sid sheet names fds E1 V1 "(c1, g1)" post] r2 by simp
  have b: "foldl ?f (E1 @ [missingCatalogNumberError sheet], V1, (c1, g1)) post
             = (E1 @ [missingCatalogNumberError sheet] @ E2, V1 @ V2, (c2, g2))"
    using foldl_chunkStep_frame [of sid sheet names fds "E1 @ [missingCatalogNumberError sheet]" V1 "(c1, g1)" post] r2
    by simp
  have c1: "processProductChunk pre sid sheet names fds g = (E1, V1, g1)"
    by (simp add: processProductChunk_def r1)
  have c2: "processProductChunk (pre @ post) sid sheet names fds g = (E1 @ E2, V1 @ V2, g2)"
    by (simp add: processProductChunk_def r1 a)
  have c3: "processProductChunk (pre @ pr # post) sid sheet names fds g
             = (E1 @ [missingCatalogNumberError sheet] @ E2, V1 @ V2, g2)"
    by (simp add: processProductChunk_def r1 step b)
  have t: "etype (missingCatalogNumberError sheet) = TMissingField"
    by (simp add: missingCatalogNumberError_def mkError_def)
  show ?thesis using pp t c1 c2 c3 by blast
qed

theorem missing_catalog_number_witness:
  "(isNullish (catalogNumberOf [(''name'', JStr ''Antibody''), (''catalog_number'', JStr ''  '')])
     \<or> isBlankString (catalogNumberOf [(''name'', JStr ''Antibody''), (''catalog_number'', JStr ''  '')]))
   \<and> processProduct (Dec 5 0) ''Main Sheet'' [] []
         [(''name'', JStr ''Antibody''), (''catalog_number'', JStr ''  '')] ([''A1''], [''A1''])
       = (([missingCatalogNumberError ''Main Sheet''],
           [(''name'', JStr ''Antibody''), (''catalog_number'', JStr ''  '')]), ([''A1''], [''A1'']))"
proof -
  have h: "isNullish (catalogNumberOf [(''name'', JStr ''Antibody''), (''catalog_number'', JStr ''  '')])
     \<or> isBlankString (catalogNumberOf [(''name'', JStr ''Antibody''), (''catalog_number'', JStr ''  '')])"
    by code_simp
  show ?thesis
    using h missing_catalog_number_short_circuits [OF h, of "Dec 5 0" "''Main Sheet''" "[]" "[]" "([''A1''], [''A1''])"]
    by blast
qed

section \<open>Boolean fields\<close>




section \<open>The fuzzy matcher\<close>




section \<open>The records of a product\<close>





lemma fieldRecord_mkError [simp]:
  "fieldRecord (mkError TMissingField SevError f c s k)"
  "fieldRecord (mkError TInvalidValue SevError f c s k)"
  "fieldRecord (mkError TUnrecognizedField SevWarning f c s k)"
  "fieldRecord ((mkError TInvalidValue SevError f c s k)\<lparr>details := d\<rparr>)"
  by (simp_all add: fieldRecord_def mkError_def)














section \<open>Duplicate catalogue numbers\<close>



lemma setAdd_set [simp]: "set (setAdd xs x) = insert x (set xs)"
  by (auto simp: setAdd_def)





















section \<open>The counters of the final report\<close>

lemma noHeaderError_warning [simp]: "isWarning (noHeaderError sheet)"
  by (simp add: isWarning_def noHeaderError_def mkError_def)












lemma reportedValidProducts_append [simp]:
  "reportedValidProducts (a @ b) = reportedValidProducts a @ reportedValidProducts b"
  by (simp add: reportedValidProducts_def)

lemma reportedValidProducts_plain:
  "list_all (\<lambda>m. summary m = None) msgs \<Longrightarrow> reportedValidProducts msgs = []"
  by (induction msgs) (simp_all add: reportedValidProducts_def)

lemma summary_mkMessage [simp]:
  "summary (mkMessage t sev c) = None"
  "summary ((mkMessage t sev c)\<lparr>details := d\<rparr>) = None"
  by (simp_all add: mkMessage_def mkError_def)

lemma reportedValidProducts_simps [simp]:
  "reportedValidProducts [] = []"
  "reportedValidProducts (mkMessage t sev c # msgs) = reportedValidProducts msgs"
  "reportedValidProducts ((mkMessage t sev c)\<lparr>details := ds\<rparr> # msgs) = reportedValidProducts msgs"
  "reportedValidProducts (replicate n (mkMessage t sev c)) = []"
  "reportedValidProducts (summaryReport a b c' d # msgs)
     = (int a - int b - int c') # reportedValidProducts msgs"
  by (simp_all add: reportedValidProducts_def summaryReport_def list_all_iff
        reportedValidProducts_plain [unfolded reportedValidProducts_def])

lemma reportedValidProducts_batches [simp]:
  "reportedValidProducts (map (\<lambda>b. (mkMessage t sev c)\<lparr>details := f b\<rparr>) xs) = []"
  by (rule reportedValidProducts_plain) (simp add: list_all_iff)





section \<open>The end of the message stream\<close>

lemma endsWithReport_base: "endsWithReport [summaryReport a b c d, mkMessage TSuccess SevSuccess None]"
  unfolding endsWithReport_def by (intro exI [of _ "[]"] exI) simp

lemma endsWithReport_append: "endsWithReport ys \<Longrightarrow> endsWithReport (xs @ ys)"
  unfolding endsWithReport_def by (metis append_assoc)

lemma endsWithNoProducts_append: "endsWithNoProducts ys \<Longrightarrow> endsWithNoProducts (xs @ ys)"
  unfolding endsWithNoProducts_def by (metis append_assoc)

lemma endsWithFatalError_append: "endsWithFatalError ys \<Longrightarrow> endsWithFatalError (xs @ ys)"
  unfolding endsWithFatalError_def by (metis append_assoc)

lemma endsWithFatalError_single: "isFatalError e \<Longrightarrow> endsWithFatalError [e]"
  unfolding endsWithFatalError_def by (intro exI [of _ "[]"] exI [of _ e]) simp

lemma validateAndReport_ends: "endsWithReport (fst (validateAndReport rt env sid fds rs))"
  unfolding validateAndReport_def Let_def case_prod_beta fst_conv
  by (intro endsWithReport_append endsWithReport_base)

lemma fatal_errors:
  "isFatalError (mkMessage TSystemError SevError (Some ''MISSING_PARAMS''))"
  "isFatalError (mkMessage TFileError SevError (Some ''FILE_NOT_FOUND''))"
  "isFatalError (mkMessage TSystemError SevError (Some ''METADATA_NOT_FOUND''))"
  "isFatalError (mkMessage TFileError SevError (Some ''EXCEL_OPEN_ERROR''))"
  "isFatalError unexpectedServerError"
  by (simp_all add: isFatalError_def mkMessage_def mkError_def unexpectedServerError_def)

lemma runBody_ends:
  "endsWithReport (fst (runBody rt env)) \<or> endsWithNoProducts (fst (runBody rt env))
   \<or> endsWithFatalError (fst (runBody rt env))"
proof (cases "paramsMissing env")
  case True
  then show ?thesis by (simp add: runBody_def endsWithFatalError_single fatal_errors)
next
  case pm: False
  show ?thesis
  proof (cases "fileExists env")
    case False
    then show ?thesis using pm by (simp add: runBody_def endsWithFatalError_single fatal_errors)
  next
    case fe: True
    show ?thesis
    proof (cases "additionalFieldsDocument env")
      case Throws
      then show ?thesis using pm fe by (simp add: runBody_def endsWithFatalError_single fatal_errors)
    next
      case (Returns doc)
      show ?thesis
      proof (cases doc)
        case None
        then show ?thesis using pm fe Returns
          by (simp add: runBody_def endsWithFatalError_single fatal_errors)
      next
        case (Some fds)
        show ?thesis
        proof (cases "workbookOpens env")
          case False
          have "endsWithFatalError ([mkMessage TInfo SevInfo None]
                  @ [mkMessage TFileError SevError (Some ''EXCEL_OPEN_ERROR'')])"
            by (intro endsWithFatalError_append endsWithFatalError_single fatal_errors)
          then show ?thesis using pm fe Returns Some False by (simp add: runBody_def)
        next
          case wo: True
          obtain failed rs where r: "readWorkbook (workbook env) initialReaderState = (failed, rs)"
            by (metis prod.collapse)
          show ?thesis
          proof (cases failed)
            case True
            have "endsWithFatalError ([mkMessage TInfo SevInfo None] @ sent rs @ [unexpectedServerError])"
              by (intro endsWithFatalError_append endsWithFatalError_single fatal_errors)
            then show ?thesis using pm fe Returns Some wo r True by (simp add: runBody_def)
          next
            case False
            show ?thesis
            proof (cases "allProducts rs = []")
              case True
              have "endsWithNoProducts ([mkMessage TInfo SevInfo None] @ sent rs
                      @ [mkMessage TInfo SevInfo (Some ''NO_PRODUCTS_FOUND''),
                         mkMessage TSuccess SevSuccess None])"
                unfolding endsWithNoProducts_def by (metis append_assoc)
              then show ?thesis using pm fe Returns Some wo r False True by (simp add: runBody_def)
            next
              case np: False
              obtain msgs files' where v:
                "validateAndReport rt env (supplierIdOf env) fds rs = (msgs, files')"
                by (metis prod.collapse)
              have "endsWithReport msgs" using validateAndReport_ends [of rt env "supplierIdOf env" fds rs] v
                by simp
              then have "endsWithReport ([mkMessage TInfo SevInfo None] @ sent rs @ msgs)"
                by (intro endsWithReport_append)
              then show ?thesis using pm fe Returns Some wo r False np v by (simp add: runBody_def)
            qed
          qed
        qed
      qed
    qed
  qed
qed

text \<open>
  Claim C9, as the code has it. The messages of the handler are the opening notice, the
  messages of the \<^verbatim>\<open>try\<close> block and at most one message about the removal of the
  temporary file. The messages of the \<^verbatim>\<open>try\<close> block always end in one of three ways:
  with the final report followed by a success message; with the notice that the file
  holds no products followed by a success message; or with a fatal error.
\<close>

theorem stream_always_ends_with_a_terminal_message:
  "(endsWithReport (fst (runBody rt env)) \<or> endsWithNoProducts (fst (runBody rt env))
      \<or> endsWithFatalError (fst (runBody rt env)))
   \<and> fst (GET rt env) = [mkMessage TInfo SevInfo None] @ fst (runBody rt env) @ cleanupMessages env
   \<and> cleanupMessages env
       \<in> set [[], [mkMessage TInfo SevInfo None],
               [mkMessage TSystemError SevError (Some ''TEMP_FILE_CLEANUP_FAILED'')]]"
  using runBody_ends [of rt env]
  by (simp add: GET_def cleanupMessages_def split: prod.splits)

theorem stream_always_ends_witness:
  "endsWithReport
     (fst (runBody sampleRuntime (sampleEnv [headerRow, dataRow ''A1'' ''eur'' ''12,50'' []] None)))
   \<and> length (fst (GET sampleRuntime (sampleEnv [headerRow, dataRow ''A1'' ''eur'' ''12,50'' []] None)))
       = 11"
proof -
  let ?env = "sampleEnv [headerRow, dataRow ''A1'' ''eur'' ''12,50'' []] None"
  note t = stream_always_ends_with_a_terminal_message [of sampleRuntime ?env]
  have n1: "\<not> endsWithNoProducts (fst (runBody sampleRuntime ?env))"
  proof
    assume "endsWithNoProducts (fst (runBody sampleRuntime ?env))"
    then have "last (butlast (fst (runBody sampleRuntime ?env)))
                 = mkMessage TInfo SevInfo (Some ''NO_PRODUCTS_FOUND'')"
      unfolding endsWithNoProducts_def by (auto simp: butlast_append)
    moreover have "last (butlast (fst (runBody sampleRuntime ?env)))
                 \<noteq> mkMessage TInfo SevInfo (Some ''NO_PRODUCTS_FOUND'')"
      by code_simp
    ultimately show False by blast
  qed
  have n2: "\<not> endsWithFatalError (fst (runBody sampleRuntime ?env))"
  proof
    assume "endsWithFatalError (fst (runBody sampleRuntime ?env))"
    then have "isFatalError (last (fst (runBody sampleRuntime ?env)))"
      unfolding endsWithFatalError_def by auto
    moreover have "\<not> isFatalError (last (fst (runBody sampleRuntime ?env)))"
      by code_simp
    ultimately show False by blast
  qed
  have l: "length (fst (runBody sampleRuntime ?env)) = 9" "length (cleanupMessages ?env) = 1"
    by code_simp+
  from t have "length (fst (GET sampleRuntime ?env))
      = length ([mkMessage TInfo SevInfo None] @ fst (runBody sampleRuntime ?env) @ cleanupMessages ?env)"
    by simp
  then have "length (fst (GET sampleRuntime ?env)) = 11" using l by simp
  with t n1 n2 show ?thesis by blast
qed

text \<open>
  A file that holds a header row and nothing else goes the second way: its stream has no
  final report and no message of severity \<open>error\<close>.
\<close>

theorem no_products_run_has_no_report:
  "list_all (\<lambda>m. etype m \<noteq> TSummaryReport \<and> severity m \<noteq> SevError)
     (fst (GET sampleRuntime (sampleEnv [headerRow] None)))
   \<and> map etype (fst (GET sampleRuntime (sampleEnv [headerRow] None)))
       = [TInfo, TInfo, TInfo, TInfo, TSuccess, TInfo]"
  by code_simp

section \<open>The stored fingerprints\<close>

lemma summary_noHeaderError [simp]: "summary (noHeaderError sheet) = None"
  by (simp add: noHeaderError_def mkError_def)

lemma summary_mkMessage' [simp]: "summary (mkMessage t sev c) = None"
  by (simp add: mkMessage_def mkError_def)

lemma summary_mkError [simp]: "summary (mkError t sev f cat sh c) = None"
  by (simp add: mkError_def)





lemma reportedErrorCounts_append [simp]:
  "reportedErrorCounts (a @ b) = reportedErrorCounts a @ reportedErrorCounts b"
  by (simp add: reportedErrorCounts_def)



lemma reportedErrorCounts_simps [simp]:
  "reportedErrorCounts [] = []"
  "reportedErrorCounts (mkMessage t sev c # msgs) = reportedErrorCounts msgs"
  "reportedErrorCounts ((mkMessage t sev c)\<lparr>details := ds\<rparr> # msgs) = reportedErrorCounts msgs"
  "reportedErrorCounts (replicate n (mkMessage t sev c)) = []"
  "reportedErrorCounts (map (\<lambda>b. (mkMessage t sev c)\<lparr>details := f b\<rparr>) xs) = []"
  "reportedErrorCounts (summaryReport a b c' d # msgs) = (b, c') # reportedErrorCounts msgs"
  by (simp_all add: reportedErrorCounts_def summaryReport_def mkMessage_def mkError_def)



lemma env_update_simps [simp]:
  "paramsMissing (env\<lparr>bluePrintFiles := files\<rparr>) = paramsMissing env"
  "supplierIdOf (env\<lparr>bluePrintFiles := files\<rparr>) = supplierIdOf env"
  "cleanupMessages (env\<lparr>bluePrintFiles := files\<rparr>) = cleanupMessages env"
  by (simp_all add: paramsMissing_def supplierIdOf_def cleanupMessages_def)

lemma reportedErrorCounts_fatal [simp]:
  "reportedErrorCounts [unexpectedServerError] = []"
  by (simp add: unexpectedServerError_def)


lemma reportedErrorCounts_cleanup [simp]: "reportedErrorCounts (cleanupMessages env) = []"
  by (simp add: cleanupMessages_def)




section \<open>Sheets and their header row\<close>

text \<open>
  The header names of a sheet are read from the first row that the reader delivers for
  it, a blank header cell getting the name \<open>Column\<close> followed by its column number.
  When that row has no cell at all, the sheet gets one warning of type \<open>file_error\<close>
  and gives no product, whatever its later rows hold (lemma
  \<open>blank_first_row_skips_sheet\<close>).
\<close>

lemma headerName_placeholder:
  "isNullish v \<or> trim (toStr v) = [] \<Longrightarrow> headerName v colNumber = ''Column'' @ natDigits colNumber"
  by (simp add: headerName_def)

lemma headerName_text:
  "\<not> isNullish v \<Longrightarrow> trim (toStr v) \<noteq> [] \<Longrightarrow> headerName v colNumber = trim (toStr v)"
  by (simp add: headerName_def)

text \<open>Rows after a header row without any header leave everything but the row counter as it is.\<close>

lemma rowStep_without_headers:
  assumes "headers st = []" "0 < rowIndex st"
  shows "rowStep sheet cells st = st\<lparr>rowIndex := rowIndex st + 1\<rparr>"
proof -
  have "foldl (\<lambda>pd (colNumber, v).
                 (case map_of ([] :: (nat \<times> string) list) colNumber of
                    Some h \<Rightarrow> if h \<noteq> [] then setField pd h (cellValue v) else pd
                  | None \<Rightarrow> pd)) pd cells = pd" for pd :: product
    by (induction cells arbitrary: pd) auto
  then show ?thesis using assms by (simp add: rowStep_def Let_def)
qed

lemma readRows_without_headers:
  assumes "headers st = []" "0 < rowIndex st"
  shows "\<exists>n. snd (readRows sheet evs st) = st\<lparr>rowIndex := n\<rparr>"
  using assms
proof (induction evs arbitrary: st)
  case Nil
  show ?case by (intro exI [of _ "rowIndex st"]) simp
next
  case (Cons ev evs)
  show ?case
  proof (cases ev)
    case RowFails
    then show ?thesis by (intro exI [of _ "rowIndex st"]) simp
  next
    case (RowRead cells)
    let ?st = "st\<lparr>rowIndex := rowIndex st + 1\<rparr>"
    have "\<exists>n. snd (readRows sheet evs ?st) = ?st\<lparr>rowIndex := n\<rparr>"
      by (rule Cons.IH) (use Cons.prems in simp_all)
    then show ?thesis using RowRead rowStep_without_headers [OF Cons.prems] by simp
  qed
qed

lemma blank_first_row_skips_sheet:
  "allProducts (snd (readSheet name (RowRead [] # evs) st)) = allProducts st
   \<and> processedRows (snd (readSheet name (RowRead [] # evs) st)) = processedRows st
   \<and> (\<exists>sheet. allProcessingErrors (snd (readSheet name (RowRead [] # evs) st))
                  = allProcessingErrors st @ [noHeaderError sheet]
              \<and> sent (snd (readSheet name (RowRead [] # evs) st))
                  = sent st @ [mkError TInfo SevInfo None JUndefined (Some sheet) None, noHeaderError sheet])
   \<and> etype (noHeaderError sheet') = TFileError \<and> severity (noHeaderError sheet') = SevWarning"
proof -
  define sheet where "sheet = (case name of None \<Rightarrow> ''Sheet'' | Some n \<Rightarrow> if n = [] then ''Sheet'' else n)"
  define st1 where "st1 = st\<lparr>sent := sent st @ [mkError TInfo SevInfo None JUndefined (Some sheet) None],
                    sheetProducts := [], rowIndex := 0, headers := [], sheetHeaders := []\<rparr>"
  define st2 where "st2 = rowStep sheet [] st1"
  have s2: "st2 = st1\<lparr>rowIndex := 1, headers := [],
              allProcessingErrors := allProcessingErrors st1 @ [noHeaderError sheet],
              sent := sent st1 @ [noHeaderError sheet]\<rparr>"
    by (simp add: st2_def rowStep_def Let_def st1_def)
  have h: "headers st2 = []" "0 < rowIndex st2" by (simp_all add: s2)
  obtain n where n: "snd (readRows sheet evs st2) = st2\<lparr>rowIndex := n\<rparr>"
    using readRows_without_headers [OF h] by blast
  obtain b st3 where r: "readRows sheet evs st2 = (b, st3)" by (metis prod.collapse)
  have st3: "st3 = st2\<lparr>rowIndex := n\<rparr>" using n r by simp
  have rs: "readSheet name (RowRead [] # evs) st =
      (if b then (True, st3)
       else (False, st3\<lparr>metadata := metadata st3 @
                     [\<lparr>metaSheetName = sheet, rowCount = int (rowIndex st3) - 1,
                       metaHeaders = sheetHeaders st3\<rparr>],
                  allProducts := allProducts st3 @ sheetProducts st3\<rparr>))"
    unfolding readSheet_def Let_def sheet_def [symmetric] st1_def [symmetric]
    using r by (cases b) (simp_all add: st2_def)
  have "allProcessingErrors (snd (readSheet name (RowRead [] # evs) st))
                  = allProcessingErrors st @ [noHeaderError sheet]
      \<and> sent (snd (readSheet name (RowRead [] # evs) st))
                  = sent st @ [mkError TInfo SevInfo None JUndefined (Some sheet) None, noHeaderError sheet]"
    by (simp add: rs st3 s2 st1_def)
  moreover have "allProducts (snd (readSheet name (RowRead [] # evs) st)) = allProducts st"
    "processedRows (snd (readSheet name (RowRead [] # evs) st)) = processedRows st"
    by (simp_all add: rs st3 s2 st1_def)
  moreover have "etype (noHeaderError sheet') = TFileError \<and> severity (noHeaderError sheet') = SevWarning"
    by (simp add: noHeaderError_def mkError_def)
  ultimately show ?thesis by blast
qed

text \<open>
  Claim C8 asks for this warning for every sheet without a header row. A sheet that
  delivers no row at all is such a sheet, and the handler has no warning for it: the check
  sits inside the loop over the rows, which does not run. The sheet is recorded with a
  row count of \<open>- 1\<close>, nothing is added to the errors of the run, and the stream goes
  from the notice for the sheet straight to the notice that no products were found. For
  comparison, the same run with a sheet of one blank row does carry the warning.
\<close>

theorem empty_sheet_gets_no_warning:
  "allProcessingErrors (snd (readSheet (Some ''Products'') [] initialReaderState)) = []
   \<and> metadata (snd (readSheet (Some ''Products'') [] initialReaderState))
       = [\<lparr>metaSheetName = ''Products'', rowCount = - 1, metaHeaders = []\<rparr>]
   \<and> map (\<lambda>m. (etype m, code m)) (fst (GET sampleRuntime (sampleEnv [] None)))
       = [(TInfo, None), (TInfo, None), (TInfo, None), (TInfo, Some ''NO_PRODUCTS_FOUND''),
          (TSuccess, None), (TInfo, None)]
   \<and> map (\<lambda>m. (etype m, code m)) (fst (GET sampleRuntime (sampleEnv [RowRead []] None)))
       = [(TInfo, None), (TInfo, None), (TInfo, None), (TFileError, Some ''NO_SHEET_HEADERS''),
          (TInfo, Some ''NO_PRODUCTS_FOUND''), (TSuccess, None), (TInfo, None)]"
  by code_simp

section \<open>Constant fields\<close>











end
